theory Spec2Isabelle
  imports Main "HOL-Library.Word"
begin

unbundle bit_operations_syntax

section \<open>Registers, events and the machine state\<close>

text \<open>
  The firmware of \<^verbatim>\<open>main.c\<close> talks to the hardware through memory-mapped 32-bit
  registers. The register names are macros of the headers \<^verbatim>\<open>gpio.h\<close> and
  \<^verbatim>\<open>gic.h\<close>; a register is identified here by the macro the code dereferences.
  The four distributor arrays are addressed in the code as
  \<^verbatim>\<open>*(GIC_GICD_IPRIORITYR + (i * 4))\<close>: the constructor argument is the operand
  added to the macro, exactly as written in the source; as in C, it counts
  elements of the macro's type. Distinct macros, and distinct operands of the same
  macro, are distinct locations.
\<close>

type_synonym u32 = "32 word"

datatype reg =
    GPFSEL0
  | GPFSEL1
  | GPPUPPDN0
  | GPREN0
  | GPFEN0
  | GPSET0
  | GPCLR0
  | GIC_GICD_CTLR
  | GIC_GICD_IPRIORITYR nat
  | GIC_GICD_ITARGETSR nat
  | GIC_GICD_ICFGR nat
  | GIC_GICD_ISENABLER nat

text \<open>
  What the program does to the outside world, in program order: register
  writes, the calls of the console, of \<^verbatim>\<open>enableIRQ\<close> and of
  \<^verbatim>\<open>microsecond_delay\<close>, and the \<^verbatim>\<open>nop\<close> instructions of a busy-wait loop
  (one event carrying their number).
\<close>

datatype event =
    UartInit
  | Puts string
  | PutHex u32
  | EnableIRQ
  | Write reg u32
  | Delay u32
  | Nops nat

text \<open>
  The state: the contents of the registers (a read returns what was last
  written), the two globals of \<^verbatim>\<open>main.c\<close>, and the events so far.
\<close>

record state =
  regs :: "reg \<Rightarrow> u32"
  sharedValue :: u32
  redBool :: u32
  trace :: "event list"

text \<open>
  The values returned by the processor queries \<^verbatim>\<open>getCurrentEL\<close>, \<^verbatim>\<open>getSPSel\<close>
  and \<^verbatim>\<open>getDAIF\<close> (called twice), which are defined outside \<^verbatim>\<open>main.c\<close>.
\<close>

record ext =
  currentEL :: u32
  spsel :: u32
  daif_before :: u32
  daif_after :: u32

definition emit :: "event \<Rightarrow> state \<Rightarrow> state" where
  "emit e s = s\<lparr>trace := trace s @ [e]\<rparr>"

definition wr :: "reg \<Rightarrow> u32 \<Rightarrow> state \<Rightarrow> state" where
  "wr r v s = emit (Write r v) (s\<lparr>regs := (regs s)(r := v)\<rparr>)"

definition uart_init :: "state \<Rightarrow> state" where
  "uart_init = emit UartInit"

definition uart_puts :: "string \<Rightarrow> state \<Rightarrow> state" where
  "uart_puts str = emit (Puts str)"

definition uart_puthex :: "u32 \<Rightarrow> state \<Rightarrow> state" where
  "uart_puthex v = emit (PutHex v)"

definition enableIRQ :: "state \<Rightarrow> state" where
  "enableIRQ = emit EnableIRQ"

definition microsecond_delay :: "u32 \<Rightarrow> state \<Rightarrow> state" where
  "microsecond_delay n = emit (Delay n)"

text \<open>A block of statements, run from the first to the last.\<close>

definition run :: "(state \<Rightarrow> state) list \<Rightarrow> state \<Rightarrow> state" where
  "run fs s = fold (\<lambda>f. f) fs s"

section \<open>Loops\<close>

text \<open>
  \<^verbatim>\<open>while (r--) { asm volatile("nop"); }\<close> on an unsigned 32-bit counter: the test
  reads \<^verbatim>\<open>r\<close> and decrements it, also when it fails. The result is the final
  value of \<^verbatim>\<open>r\<close> and the number of \<^verbatim>\<open>nop\<close>s executed.
\<close>

function nop_loop :: "u32 \<Rightarrow> nat \<Rightarrow> u32 \<times> nat" where
  "nop_loop r n = (if r \<noteq> 0 then nop_loop (r - 1) (Suc n) else (r - 1, n))"
  by pat_completeness auto
termination
  by (relation "measure (\<lambda>(r, n). unat r)") (auto simp: measure_unat)

definition busy_wait :: "u32 \<Rightarrow> state \<Rightarrow> state" where
  "busy_wait r s = emit (Nops (snd (nop_loop r 0))) s"

text \<open>\<^verbatim>\<open>for (i = lo; i < hi; i++) body\<close>.\<close>

function for_loop :: "nat \<Rightarrow> nat \<Rightarrow> (nat \<Rightarrow> state \<Rightarrow> state) \<Rightarrow> state \<Rightarrow> state" where
  "for_loop i hi body s = (if i < hi then for_loop (Suc i) hi body (body i s) else s)"
  by pat_completeness auto
termination
  by (relation "measure (\<lambda>(i, hi, body, s). hi - i)") auto

section \<open>The GPIO routines\<close>

definition init_GPIO0_to_risingEdgeInterrupt :: "state \<Rightarrow> state" where
  "init_GPIO0_to_risingEdgeInterrupt = run [
     (\<lambda>s. let r = regs s GPFSEL0;
               r = r AND NOT 0x7
           in wr GPFSEL0 r s),
     busy_wait 150,
     (\<lambda>s. let r = regs s GPPUPPDN0;
               r = r AND NOT 0x3;
               r = r OR push_bit 1 0x1
           in wr GPPUPPDN0 r s),
     busy_wait 150,
     wr GPREN0 (push_bit 0 0x1)]"

definition init_GPIO1_to_fallingEdgeInterrupt :: "state \<Rightarrow> state" where
  "init_GPIO1_to_fallingEdgeInterrupt = run [
     busy_wait 150,
     (\<lambda>s. let r = regs s GPFSEL0;
               r = r AND NOT (push_bit 3 0x7)
           in wr GPFSEL0 r s),
     busy_wait 150,
     (\<lambda>s. let r = regs s GPPUPPDN0;
               r = r AND NOT (push_bit 2 0x3)
           in wr GPPUPPDN0 r s),
     busy_wait 150,
     wr GPFEN0 (push_bit 1 0x1)]"

definition init_GPIO4_to_output :: "state \<Rightarrow> state" where
  "init_GPIO4_to_output s =
     (let r = regs s GPFSEL0;
          r = r AND NOT (push_bit 12 0x7);
          r = r OR push_bit 12 0x1
      in wr GPFSEL0 r s)"

definition set_GPIO4 :: "state \<Rightarrow> state" where
  "set_GPIO4 = run [
     (\<lambda>s. wr GPREN0 (regs s GPREN0 AND NOT (push_bit 0 0x1)) s),
     wr GPSET0 (push_bit 4 0x1),
     (\<lambda>s. wr GPREN0 (regs s GPREN0 OR push_bit 0 0x1) s)]"

definition clear_GPIO4 :: "state \<Rightarrow> state" where
  "clear_GPIO4 = wr GPCLR0 (push_bit 4 0x1)"

definition init_GPIO12_to_output :: "state \<Rightarrow> state" where
  "init_GPIO12_to_output s =
     (let r = regs s GPFSEL1;
          r = r AND NOT (push_bit 6 0x7);
          r = r OR push_bit 6 0x1
      in wr GPFSEL1 r s)"

definition set_GPIO12 :: "state \<Rightarrow> state" where
  "set_GPIO12 = wr GPSET0 (push_bit 12 0x1)"

definition clear_GPIO12 :: "state \<Rightarrow> state" where
  "clear_GPIO12 = wr GPCLR0 (push_bit 12 0x1)"

definition init_GPIO16_to_output :: "state \<Rightarrow> state" where
  "init_GPIO16_to_output s =
     (let r = regs s GPFSEL1;
          r = r AND NOT (push_bit 18 0x7);
          r = r OR push_bit 18 0x1
      in wr GPFSEL1 r s)"

definition set_GPIO16 :: "state \<Rightarrow> state" where
  "set_GPIO16 = wr GPSET0 (push_bit 16 0x1)"

definition clear_GPIO16 :: "state \<Rightarrow> state" where
  "clear_GPIO16 = wr GPCLR0 (push_bit 16 0x1)"

section \<open>The main routine\<close>

text \<open>
  \<^verbatim>\<open>main\<close> up to the main loop, cut where the source's comments cut it: the
  initial report, the GPIO set-up, the enabling of IRQ exceptions with its
  report, and the set-up of the interrupt controller.
\<close>

definition main_report :: "ext \<Rightarrow> state \<Rightarrow> state" where
  "main_report x = run [
     uart_init,
     uart_puts ''Initial Values:\<newline>'',
     uart_puts ''  Exception level:    0x'',
     uart_puthex (currentEL x),
     uart_puts ''\<newline>'',
     uart_puts ''  SPSel:              0x'',
     uart_puthex (spsel x),
     uart_puts ''\<newline>'',
     uart_puts ''  DAIF flags:         0x'',
     uart_puthex (daif_before x),
     uart_puts ''\<newline>'',
     (\<lambda>s. run [uart_puts ''  GPREN0:             0x'', uart_puthex (regs s GPREN0)] s),
     uart_puts ''\<newline>'',
     (\<lambda>s. run [uart_puts ''  GPFEN0:             0x'', uart_puthex (regs s GPFEN0)] s),
     uart_puts ''\<newline>'',
     (\<lambda>s. s\<lparr>sharedValue := 0\<rparr>),
     (\<lambda>s. s\<lparr>redBool := 1\<rparr>),
     uart_puts ''\<newline>Resetting to new values:\<newline>'']"

definition main_gpio :: "state \<Rightarrow> state" where
  "main_gpio = run [
     init_GPIO0_to_risingEdgeInterrupt,
     init_GPIO1_to_fallingEdgeInterrupt,
     init_GPIO4_to_output,
     init_GPIO12_to_output,
     init_GPIO16_to_output]"

definition main_irq :: "ext \<Rightarrow> state \<Rightarrow> state" where
  "main_irq x = run [
     enableIRQ,
     uart_puts ''  DAIF flags:         0x'',
     uart_puthex (daif_after x),
     uart_puts ''\<newline>'',
     uart_puts ''  GPREN0:             0x'',
     (\<lambda>s. uart_puthex (regs s GPREN0) s),
     uart_puts ''\<newline>'',
     uart_puts ''  GPFEN0:             0x'',
     (\<lambda>s. uart_puthex (regs s GPFEN0) s),
     uart_puts ''\<newline>\<newline>'']"

definition main_gic :: "ext \<Rightarrow> state \<Rightarrow> state" where
  "main_gic x = run [
     for_loop 0 16 (\<lambda>i. wr (GIC_GICD_IPRIORITYR (i * 4)) 0x00000000),
     for_loop 8 16 (\<lambda>i. wr (GIC_GICD_ITARGETSR (i * 4)) 0x01010101),
     for_loop 1 4 (\<lambda>i. wr (GIC_GICD_ICFGR (i * 4)) 0xFFFFFFFF),
     uart_puts ''Enabling Bank 0 GPIO interrupts (pins 0 - 27) in GIC:\<newline>'',
     wr (GIC_GICD_ISENABLER (1 * 4)) 0x00020000,
     (\<lambda>s. run [uart_puts ''  GICD_ISENABLER0:    0x'',
                uart_puthex (regs s (GIC_GICD_ISENABLER (0 * 4)))] s),
     uart_puts ''\<newline>'',
     (\<lambda>s. run [uart_puts ''  GICD_ISENABLER1:    0x'',
                uart_puthex (regs s (GIC_GICD_ISENABLER (1 * 4)))] s),
     uart_puts ''\<newline>\<newline>'',
     (if currentEL x = 0x3
      then run [wr GIC_GICD_CTLR 0x3,
                uart_puts ''Enabling GIC forwarding of Group 0 and 1 interrupts.\<newline>'']
      else run [wr GIC_GICD_CTLR 0x1,
                uart_puts ''Enabling GIC forwarding of Group 1 interrupts.\<newline>'']),
     (\<lambda>s. run [uart_puts ''  GICD_CTLR:          0x'', uart_puthex (regs s GIC_GICD_CTLR)] s),
     uart_puts ''\<newline>\<newline>'']"

definition main_startup :: "ext \<Rightarrow> state \<Rightarrow> state" where
  "main_startup x = run [
     main_report x,
     main_gpio,
     main_irq x,
     main_gic x,
     uart_puts ''\<newline>Starting main loop...\<newline>'']"

text \<open>
  The body of \<^verbatim>\<open>while (1)\<close>: one pass of the dispatcher, for the value of
  \<^verbatim>\<open>sharedValue\<close> it finds, and the busy-wait that ends it.
\<close>

definition loop_body :: "state \<Rightarrow> state" where
  "loop_body = run [
     (\<lambda>s. if sharedValue s = 0 then run [
             uart_puts ''\<newline>State 1\<newline>'',
             set_GPIO16, clear_GPIO12, clear_GPIO4,
             microsecond_delay 500000,
             set_GPIO12, clear_GPIO16, clear_GPIO4,
             microsecond_delay 500000,
             set_GPIO4, clear_GPIO12, clear_GPIO16,
             microsecond_delay 500000] s
           else if sharedValue s = 1 then run [
             uart_puts ''\<newline>State 2\<newline>'',
             set_GPIO4, clear_GPIO12, clear_GPIO16,
             microsecond_delay 250000,
             set_GPIO12, clear_GPIO4, clear_GPIO16,
             microsecond_delay 250000,
             set_GPIO16, clear_GPIO4, clear_GPIO12,
             microsecond_delay 250000] s
           else s),
     busy_wait 0x0000FFFF]"

text \<open>
  \<^verbatim>\<open>main\<close> never returns: after the start-up it runs the loop body for ever.
  \<open>main_upto n\<close> is the state after the first \<open>n\<close> passes.
\<close>

definition main_upto :: "nat \<Rightarrow> ext \<Rightarrow> state \<Rightarrow> state" where
  "main_upto n x s = (loop_body ^^ n) (main_startup x s)"

text \<open>The events a routine adds to the trace.\<close>

definition events_of :: "(state \<Rightarrow> state) \<Rightarrow> state \<Rightarrow> event list" where
  "events_of f s = drop (length (trace s)) (trace (f s))"


declare nop_loop.simps [simp del] for_loop.simps [simp del]

section \<open>Reading the trace\<close>

text \<open>The values written to one register, in program order.\<close>

fun write_to :: "reg \<Rightarrow> event \<Rightarrow> u32 list" where
  "write_to r (Write r' v) = (if r' = r then [v] else [])"
| "write_to r _ = []"

definition writes_to :: "reg \<Rightarrow> event list \<Rightarrow> u32 list" where
  "writes_to r es = concat (map (write_to r) es)"

text \<open>
  The writes to the priority array and to the target array of the distributor:
  the operand added to the macro, and the value.
\<close>

fun prio_write :: "event \<Rightarrow> (nat \<times> u32) list" where
  "prio_write (Write (GIC_GICD_IPRIORITYR n) v) = [(n, v)]"
| "prio_write _ = []"

definition prio_writes :: "event list \<Rightarrow> (nat \<times> u32) list" where
  "prio_writes es = concat (map prio_write es)"

fun target_write :: "event \<Rightarrow> (nat \<times> u32) list" where
  "target_write (Write (GIC_GICD_ITARGETSR n) v) = [(n, v)]"
| "target_write _ = []"

definition target_writes :: "event list \<Rightarrow> (nat \<times> u32) list" where
  "target_writes es = concat (map target_write es)"

text \<open>
  Configuration steps: a write to a GPIO function-select, pull or edge-detect
  register configures a GPIO line; a write to a distributor register configures
  the interrupt controller.
\<close>

fun gpio_config_reg :: "reg \<Rightarrow> bool" where
  "gpio_config_reg GPFSEL0 = True"
| "gpio_config_reg GPFSEL1 = True"
| "gpio_config_reg GPPUPPDN0 = True"
| "gpio_config_reg GPREN0 = True"
| "gpio_config_reg GPFEN0 = True"
| "gpio_config_reg _ = False"

fun gic_reg :: "reg \<Rightarrow> bool" where
  "gic_reg GIC_GICD_CTLR = True"
| "gic_reg (GIC_GICD_IPRIORITYR n) = True"
| "gic_reg (GIC_GICD_ITARGETSR n) = True"
| "gic_reg (GIC_GICD_ICFGR n) = True"
| "gic_reg (GIC_GICD_ISENABLER n) = True"
| "gic_reg _ = False"

fun is_gpio_config :: "event \<Rightarrow> bool" where
  "is_gpio_config (Write r v) = gpio_config_reg r"
| "is_gpio_config _ = False"

fun is_gic_config :: "event \<Rightarrow> bool" where
  "is_gic_config (Write r v) = gic_reg r"
| "is_gic_config _ = False"

fun written_reg :: "event \<Rightarrow> reg list" where
  "written_reg (Write r v) = [r]"
| "written_reg _ = []"

text \<open>The events before the first \<^verbatim>\<open>enableIRQ\<close>, and the events after it.\<close>

definition before_irq :: "event list \<Rightarrow> event list" where
  "before_irq es = takeWhile (\<lambda>e. e \<noteq> EnableIRQ) es"

definition after_irq :: "event list \<Rightarrow> event list" where
  "after_irq es = drop 1 (dropWhile (\<lambda>e. e \<noteq> EnableIRQ) es)"

text \<open>
  Modelled from the spec: the effect of the set and clear registers on the
  level of the 32 lines of the bank, which is the hardware's and not in
  \<^verbatim>\<open>main.c\<close>. The registers are write-1-to-act: a write to \<^verbatim>\<open>GPSET0\<close> raises the
  lines whose bit is 1, a write to \<^verbatim>\<open>GPCLR0\<close> lowers them, and writing 0 to a bit
  leaves its line as it is.
\<close>

fun drive :: "event \<Rightarrow> u32 \<Rightarrow> u32" where
  "drive (Write r v) lv =
     (if r = GPSET0 then lv OR v else if r = GPCLR0 then lv AND NOT v else lv)"
| "drive _ lv = lv"

text \<open>The levels at the start of each \<^verbatim>\<open>microsecond_delay\<close>, and the duration asked for.\<close>

fun dwells :: "event list \<Rightarrow> u32 \<Rightarrow> (u32 \<times> u32) list" where
  "dwells [] lv = []"
| "dwells (Delay n # es) lv = (lv, n) # dwells es lv"
| "dwells (e # es) lv = dwells es (drive e lv)"

text \<open>Which of the three output lines (GPIO 4, 12 and 16) are high.\<close>

definition asserted :: "u32 \<Rightarrow> nat list" where
  "asserted lv = filter (bit lv) [4, 12, 16]"

text \<open>The 2-bit pull field of a line in \<^verbatim>\<open>GPPUPPDN0\<close>, and a byte of a target register.\<close>

definition pull_field :: "nat \<Rightarrow> u32 \<Rightarrow> u32" where
  "pull_field line v = take_bit 2 (drop_bit (2 * line) v)"

definition affinity_byte :: "nat \<Rightarrow> u32 \<Rightarrow> u32" where
  "affinity_byte k v = take_bit 8 (drop_bit (8 * k) v)"

text \<open>
  Modelled from the spec: the meaning of a core-affinity byte, which is the
  interrupt controller's and not in \<^verbatim>\<open>main.c\<close>. The spec's data model gives an
  interrupt line a target-core mask: a core may take the interrupt when its bit
  of the mask is set, bit 0 for the first core, bit 1 for the second, and so on.
\<close>

definition core_targeted :: "u32 \<Rightarrow> nat \<Rightarrow> bool" where
  "core_targeted m c = bit m c"

text \<open>
  The element of the priority array that holds the priority field of an
  interrupt ID, when every element holds the fields of \<open>per\<close> consecutive IDs.
  The operand of \<^verbatim>\<open>GIC_GICD_IPRIORITYR + (i * 4)\<close> counts elements of the type
  \<^verbatim>\<open>gic.h\<close> gives the macro, as C pointer arithmetic does; that header is not
  among the sources, so \<open>per\<close> is a parameter (4 for one-byte fields in 32-bit
  registers, 1 for one-byte elements). An ID's priority field is zeroed by a
  trace when the trace writes 0 to its element.
\<close>

definition prio_element :: "nat \<Rightarrow> nat \<Rightarrow> nat" where
  "prio_element per n = n div per"

definition prio_zeroed :: "nat \<Rightarrow> event list \<Rightarrow> nat \<Rightarrow> bool" where
  "prio_zeroed per es n = ((prio_element per n, 0) \<in> set (prio_writes es))"

text \<open>
  Concrete inputs: a state in which every register reads 0 and nothing has
  happened yet, and the answers of a processor at exception level 1 and at
  exception level 3.
\<close>

definition power_on :: state where
  "power_on = \<lparr>regs = (\<lambda>r. 0), sharedValue = 0, redBool = 0, trace = []\<rparr>"

definition at_EL1 :: ext where
  "at_EL1 = \<lparr>currentEL = 0x1, spsel = 0x1, daif_before = 0x3C0, daif_after = 0x340\<rparr>"

definition at_EL3 :: ext where
  "at_EL3 = \<lparr>currentEL = 0x3, spsel = 0x1, daif_before = 0x3C0, daif_after = 0x340\<rparr>"

text \<open>A state in which every bit of every register is set.\<close>

definition all_set :: state where
  "all_set = \<lparr>regs = (\<lambda>r. 0xFFFFFFFF), sharedValue = 0, redBool = 0, trace = []\<rparr>"

section \<open>The routines as state transformers\<close>


lemma trace_emit [simp]: "trace (emit e s) = trace s @ [e]"
  and regs_emit [simp]: "regs (emit e s) = regs s"
  and sharedValue_emit [simp]: "sharedValue (emit e s) = sharedValue s"
  and redBool_emit [simp]: "redBool (emit e s) = redBool s"
  by (simp_all add: emit_def)

lemma trace_wr [simp]: "trace (wr r v s) = trace s @ [Write r v]"
  and regs_wr [simp]: "regs (wr r v s) = (regs s)(r := v)"
  and sharedValue_wr [simp]: "sharedValue (wr r v s) = sharedValue s"
  and redBool_wr [simp]: "redBool (wr r v s) = redBool s"
  by (simp_all add: wr_def)

lemma run_Nil [simp]: "run [] s = s"
  and run_Cons [simp]: "run (f # fs) s = run fs (f s)"
  by (simp_all add: run_def)


lemma nop_loop_eq: "nop_loop r n = (- 1, n + unat r)"
proof (induction r n rule: nop_loop.induct)
  case (1 r n)
  show ?case
  proof (cases "r = 0")
    case True
    then show ?thesis by (subst nop_loop.simps) simp
  next
    case False
    then have "0 < unat r" by (simp add: unat_gt_0)
    moreover have "unat (r - 1) = unat r - 1" using False by (rule unat_minus_one)
    ultimately show ?thesis using 1 False by (subst nop_loop.simps) simp
  qed
qed

lemma busy_wait_eq: "busy_wait r s = emit (Nops (unat r)) s"
  by (simp add: busy_wait_def nop_loop_eq)

lemma for_loop_fold: "for_loop i hi body s = fold body [i..<hi] s"
proof (induction i hi body s rule: for_loop.induct)
  case (1 i hi body s)
  show ?case
  proof (cases "i < hi")
    case True
    then show ?thesis using 1 by (subst for_loop.simps) (simp add: upt_conv_Cons)
  next
    case False
    then show ?thesis by (subst for_loop.simps) simp
  qed
qed

lemma trace_fold_wr: "trace (fold (\<lambda>i. wr (R i) v) xs s) = trace s @ map (\<lambda>i. Write (R i) v) xs"
  by (induction xs arbitrary: s) simp_all

lemma regs_fold_wr: "regs (fold (\<lambda>i. wr (R i) v) xs s) r = (if r \<in> R ` set xs then v else regs s r)"
  by (induction xs arbitrary: s) auto

lemma sv_fold_wr: "sharedValue (fold (\<lambda>i. wr (R i) v) xs s) = sharedValue s"
  by (induction xs arbitrary: s) auto


lemma fold_wr_redBool: "redBool (fold (\<lambda>i. wr (R i) v) xs s) = redBool s"
  by (induction xs arbitrary: s) auto

lemmas io_defs = uart_init_def uart_puts_def uart_puthex_def enableIRQ_def
  microsecond_delay_def busy_wait_eq

lemma init_GPIO0_trace:
  "trace (init_GPIO0_to_risingEdgeInterrupt s) = trace s @
     [Write GPFSEL0 (regs s GPFSEL0 AND NOT 0x7), Nops 150,
      Write GPPUPPDN0 ((regs s GPPUPPDN0 AND NOT 0x3) OR 0x2), Nops 150,
      Write GPREN0 0x1]"
  by (simp add: init_GPIO0_to_risingEdgeInterrupt_def io_defs Let_def)

lemma init_GPIO0_regs:
  "regs (init_GPIO0_to_risingEdgeInterrupt s) = (regs s)
     (GPFSEL0 := regs s GPFSEL0 AND NOT 0x7,
      GPPUPPDN0 := (regs s GPPUPPDN0 AND NOT 0x3) OR 0x2,
      GPREN0 := 0x1)"
  by (simp add: init_GPIO0_to_risingEdgeInterrupt_def io_defs Let_def)

lemma init_GPIO0_globals:
  "sharedValue (init_GPIO0_to_risingEdgeInterrupt s) = sharedValue s"
  "redBool (init_GPIO0_to_risingEdgeInterrupt s) = redBool s"
  by (simp_all add: init_GPIO0_to_risingEdgeInterrupt_def io_defs Let_def)

lemma init_GPIO1_trace:
  "trace (init_GPIO1_to_fallingEdgeInterrupt s) = trace s @
     [Nops 150, Write GPFSEL0 (regs s GPFSEL0 AND NOT 0x38), Nops 150,
      Write GPPUPPDN0 (regs s GPPUPPDN0 AND NOT 0xC), Nops 150,
      Write GPFEN0 0x2]"
  by (simp add: init_GPIO1_to_fallingEdgeInterrupt_def io_defs Let_def)

lemma init_GPIO1_regs:
  "regs (init_GPIO1_to_fallingEdgeInterrupt s) = (regs s)
     (GPFSEL0 := regs s GPFSEL0 AND NOT 0x38,
      GPPUPPDN0 := regs s GPPUPPDN0 AND NOT 0xC,
      GPFEN0 := 0x2)"
  by (simp add: init_GPIO1_to_fallingEdgeInterrupt_def io_defs Let_def)

lemma init_GPIO1_globals:
  "sharedValue (init_GPIO1_to_fallingEdgeInterrupt s) = sharedValue s"
  "redBool (init_GPIO1_to_fallingEdgeInterrupt s) = redBool s"
  by (simp_all add: init_GPIO1_to_fallingEdgeInterrupt_def io_defs Let_def)

lemma set_GPIO4_trace:
  "trace (set_GPIO4 s) = trace s @
     [Write GPREN0 (regs s GPREN0 AND NOT 0x1), Write GPSET0 0x10,
      Write GPREN0 ((regs s GPREN0 AND NOT 0x1) OR 0x1)]"
  by (simp add: set_GPIO4_def)

lemma set_GPIO4_regs:
  "regs (set_GPIO4 s) = (regs s)
     (GPSET0 := 0x10, GPREN0 := (regs s GPREN0 AND NOT 0x1) OR 0x1)"
  by (rule ext) (simp add: set_GPIO4_def)

lemma set_GPIO4_globals:
  "sharedValue (set_GPIO4 s) = sharedValue s"
  "redBool (set_GPIO4 s) = redBool s"
  by (simp_all add: set_GPIO4_def)

lemma init_GPIO4_trace:
  "trace (init_GPIO4_to_output s) = trace s @
     [Write GPFSEL0 ((regs s GPFSEL0 AND NOT 0x7000) OR 0x1000)]"
  by (simp add: init_GPIO4_to_output_def Let_def)

lemma init_GPIO4_regs:
  "regs (init_GPIO4_to_output s) = (regs s)
     (GPFSEL0 := (regs s GPFSEL0 AND NOT 0x7000) OR 0x1000)"
  by (simp add: init_GPIO4_to_output_def Let_def)

lemma init_GPIO4_globals:
  "sharedValue (init_GPIO4_to_output s) = sharedValue s"
  "redBool (init_GPIO4_to_output s) = redBool s"
  by (simp_all add: init_GPIO4_to_output_def Let_def)

lemma init_GPIO12_trace:
  "trace (init_GPIO12_to_output s) = trace s @
     [Write GPFSEL1 ((regs s GPFSEL1 AND NOT 0x1C0) OR 0x40)]"
  by (simp add: init_GPIO12_to_output_def Let_def)

lemma init_GPIO12_regs:
  "regs (init_GPIO12_to_output s) = (regs s)
     (GPFSEL1 := (regs s GPFSEL1 AND NOT 0x1C0) OR 0x40)"
  by (simp add: init_GPIO12_to_output_def Let_def)

lemma init_GPIO12_globals:
  "sharedValue (init_GPIO12_to_output s) = sharedValue s"
  "redBool (init_GPIO12_to_output s) = redBool s"
  by (simp_all add: init_GPIO12_to_output_def Let_def)

lemma init_GPIO16_trace:
  "trace (init_GPIO16_to_output s) = trace s @
     [Write GPFSEL1 ((regs s GPFSEL1 AND NOT 0x1C0000) OR 0x40000)]"
  by (simp add: init_GPIO16_to_output_def Let_def)

lemma init_GPIO16_regs:
  "regs (init_GPIO16_to_output s) = (regs s)
     (GPFSEL1 := (regs s GPFSEL1 AND NOT 0x1C0000) OR 0x40000)"
  by (simp add: init_GPIO16_to_output_def Let_def)

lemma init_GPIO16_globals:
  "sharedValue (init_GPIO16_to_output s) = sharedValue s"
  "redBool (init_GPIO16_to_output s) = redBool s"
  by (simp_all add: init_GPIO16_to_output_def Let_def)

lemmas gpio_init_simps =
  init_GPIO0_trace init_GPIO0_regs init_GPIO0_globals
  init_GPIO1_trace init_GPIO1_regs init_GPIO1_globals
  init_GPIO4_trace init_GPIO4_regs init_GPIO4_globals
  init_GPIO12_trace init_GPIO12_regs init_GPIO12_globals
  init_GPIO16_trace init_GPIO16_regs init_GPIO16_globals

lemma main_gpio_trace:
  "trace (main_gpio s) = trace s @
     [Write GPFSEL0 (regs s GPFSEL0 AND NOT 0x7), Nops 150,
      Write GPPUPPDN0 ((regs s GPPUPPDN0 AND NOT 0x3) OR 0x2), Nops 150,
      Write GPREN0 0x1,
      Nops 150,
      Write GPFSEL0 ((regs s GPFSEL0 AND NOT 0x7) AND NOT 0x38), Nops 150,
      Write GPPUPPDN0 (((regs s GPPUPPDN0 AND NOT 0x3) OR 0x2) AND NOT 0xC), Nops 150,
      Write GPFEN0 0x2,
      Write GPFSEL0 ((((regs s GPFSEL0 AND NOT 0x7) AND NOT 0x38) AND NOT 0x7000) OR 0x1000),
      Write GPFSEL1 ((regs s GPFSEL1 AND NOT 0x1C0) OR 0x40),
      Write GPFSEL1 ((((regs s GPFSEL1 AND NOT 0x1C0) OR 0x40) AND NOT 0x1C0000) OR 0x40000)]"
  by (simp add: main_gpio_def gpio_init_simps)

lemma main_gpio_regs:
  "regs (main_gpio s) = (regs s)
     (GPFSEL0 := (((regs s GPFSEL0 AND NOT 0x7) AND NOT 0x38) AND NOT 0x7000) OR 0x1000,
      GPPUPPDN0 := ((regs s GPPUPPDN0 AND NOT 0x3) OR 0x2) AND NOT 0xC,
      GPREN0 := 0x1,
      GPFEN0 := 0x2,
      GPFSEL1 := (((regs s GPFSEL1 AND NOT 0x1C0) OR 0x40) AND NOT 0x1C0000) OR 0x40000)"
  by (rule ext) (simp add: main_gpio_def gpio_init_simps)

lemma main_gpio_globals:
  "sharedValue (main_gpio s) = sharedValue s"
  "redBool (main_gpio s) = redBool s"
  by (simp_all add: main_gpio_def gpio_init_simps)

lemma main_report_trace:
  "trace (main_report x s) = trace s @
     [UartInit,
      Puts ''Initial Values:\<newline>'',
      Puts ''  Exception level:    0x'', PutHex (currentEL x), Puts ''\<newline>'',
      Puts ''  SPSel:              0x'', PutHex (spsel x), Puts ''\<newline>'',
      Puts ''  DAIF flags:         0x'', PutHex (daif_before x), Puts ''\<newline>'',
      Puts ''  GPREN0:             0x'', PutHex (regs s GPREN0), Puts ''\<newline>'',
      Puts ''  GPFEN0:             0x'', PutHex (regs s GPFEN0), Puts ''\<newline>'',
      Puts ''\<newline>Resetting to new values:\<newline>'']"
  by (simp add: main_report_def io_defs)

lemma main_report_regs: "regs (main_report x s) = regs s"
  by (simp add: main_report_def io_defs)

lemma main_report_globals:
  "sharedValue (main_report x s) = 0"
  "redBool (main_report x s) = 1"
  by (simp_all add: main_report_def io_defs)

lemma main_irq_trace:
  "trace (main_irq x s) = trace s @
     [EnableIRQ,
      Puts ''  DAIF flags:         0x'', PutHex (daif_after x), Puts ''\<newline>'',
      Puts ''  GPREN0:             0x'', PutHex (regs s GPREN0), Puts ''\<newline>'',
      Puts ''  GPFEN0:             0x'', PutHex (regs s GPFEN0), Puts ''\<newline>\<newline>'']"
  by (simp add: main_irq_def io_defs)

lemma main_irq_regs: "regs (main_irq x s) = regs s"
  by (simp add: main_irq_def io_defs)

lemma main_irq_globals:
  "sharedValue (main_irq x s) = sharedValue s"
  "redBool (main_irq x s) = redBool s"
  by (simp_all add: main_irq_def io_defs)

lemmas fold_wr_simps = for_loop_fold trace_fold_wr regs_fold_wr sv_fold_wr fold_wr_redBool

lemma main_gic_trace:
  "trace (main_gic x s) = trace s @
     map (\<lambda>i. Write (GIC_GICD_IPRIORITYR (i * 4)) 0x00000000) [0..<16] @
     map (\<lambda>i. Write (GIC_GICD_ITARGETSR (i * 4)) 0x01010101) [8..<16] @
     map (\<lambda>i. Write (GIC_GICD_ICFGR (i * 4)) 0xFFFFFFFF) [1..<4] @
     [Puts ''Enabling Bank 0 GPIO interrupts (pins 0 - 27) in GIC:\<newline>'',
      Write (GIC_GICD_ISENABLER 4) 0x00020000,
      Puts ''  GICD_ISENABLER0:    0x'', PutHex (regs s (GIC_GICD_ISENABLER 0)),
      Puts ''\<newline>'',
      Puts ''  GICD_ISENABLER1:    0x'', PutHex 0x00020000,
      Puts ''\<newline>\<newline>'',
      Write GIC_GICD_CTLR (if currentEL x = 0x3 then 0x3 else 0x1),
      Puts (if currentEL x = 0x3
            then ''Enabling GIC forwarding of Group 0 and 1 interrupts.\<newline>''
            else ''Enabling GIC forwarding of Group 1 interrupts.\<newline>''),
      Puts ''  GICD_CTLR:          0x'', PutHex (if currentEL x = 0x3 then 0x3 else 0x1),
      Puts ''\<newline>\<newline>'']"
  by (auto simp: main_gic_def io_defs fold_wr_simps image_iff)

lemma main_gic_regs:
  "regs (main_gic x s) r =
     (if r = GIC_GICD_CTLR then (if currentEL x = 0x3 then 0x3 else 0x1)
      else if r = GIC_GICD_ISENABLER 4 then 0x00020000
      else if r \<in> (\<lambda>i. GIC_GICD_ICFGR (i * 4)) ` {1..<4} then 0xFFFFFFFF
      else if r \<in> (\<lambda>i. GIC_GICD_ITARGETSR (i * 4)) ` {8..<16} then 0x01010101
      else if r \<in> (\<lambda>i. GIC_GICD_IPRIORITYR (i * 4)) ` {0..<16} then 0x00000000
      else regs s r)"
  by (auto simp: main_gic_def io_defs fold_wr_simps image_iff)

lemma main_gic_globals:
  "sharedValue (main_gic x s) = sharedValue s"
  "redBool (main_gic x s) = redBool s"
  by (simp_all add: main_gic_def io_defs fold_wr_simps)

lemmas out_defs = set_GPIO12_def set_GPIO16_def clear_GPIO4_def clear_GPIO12_def clear_GPIO16_def

lemma loop_body_trace_0:
  assumes "sharedValue s = 0"
  shows "trace (loop_body s) = trace s @
     [Puts ''\<newline>State 1\<newline>'',
      Write GPSET0 0x10000, Write GPCLR0 0x1000, Write GPCLR0 0x10, Delay 500000,
      Write GPSET0 0x1000, Write GPCLR0 0x10000, Write GPCLR0 0x10, Delay 500000,
      Write GPREN0 (regs s GPREN0 AND NOT 0x1), Write GPSET0 0x10,
      Write GPREN0 ((regs s GPREN0 AND NOT 0x1) OR 0x1),
      Write GPCLR0 0x1000, Write GPCLR0 0x10000, Delay 500000,
      Nops 65535]"
  using assms by (simp add: loop_body_def io_defs out_defs set_GPIO4_trace set_GPIO4_regs set_GPIO4_globals)

lemma loop_body_trace_1:
  assumes "sharedValue s = 1"
  shows "trace (loop_body s) = trace s @
     [Puts ''\<newline>State 2\<newline>'',
      Write GPREN0 (regs s GPREN0 AND NOT 0x1), Write GPSET0 0x10,
      Write GPREN0 ((regs s GPREN0 AND NOT 0x1) OR 0x1),
      Write GPCLR0 0x1000, Write GPCLR0 0x10000, Delay 250000,
      Write GPSET0 0x1000, Write GPCLR0 0x10, Write GPCLR0 0x10000, Delay 250000,
      Write GPSET0 0x10000, Write GPCLR0 0x10, Write GPCLR0 0x1000, Delay 250000,
      Nops 65535]"
  using assms by (simp add: loop_body_def io_defs out_defs set_GPIO4_trace set_GPIO4_regs set_GPIO4_globals)

lemma loop_body_other:
  assumes "sharedValue s \<noteq> 0" and "sharedValue s \<noteq> 1"
  shows "loop_body s = emit (Nops 65535) s"
  using assms by (simp add: loop_body_def io_defs)

lemma loop_body_globals:
  "sharedValue (loop_body s) = sharedValue s"
  "redBool (loop_body s) = redBool s"
  by (simp_all add: loop_body_def io_defs out_defs set_GPIO4_globals)

lemma main_startup_trace:
  "trace (main_startup x s) = trace s @
     events_of (main_report x) s @
     events_of main_gpio (main_report x s) @
     events_of (main_irq x) (main_gpio (main_report x s)) @
     events_of (main_gic x) (main_irq x (main_gpio (main_report x s))) @
     [Puts ''\<newline>Starting main loop...\<newline>'']"
  by (simp add: main_startup_def events_of_def uart_puts_def
        main_report_trace main_gpio_trace main_irq_trace main_gic_trace)



lemma main_gic_frame: "\<not> gic_reg r \<Longrightarrow> regs (main_gic x s) r = regs s r"
  by (auto simp: main_gic_regs)

lemma main_gic_regs_cong:
  "regs s r = regs s' r \<Longrightarrow> regs (main_gic x s) r = regs (main_gic x s') r"
  by (simp add: main_gic_regs)

lemma main_gpio_frame: "\<not> gpio_config_reg r \<Longrightarrow> regs (main_gpio s) r = regs s r"
  by (cases r) (simp_all add: main_gpio_regs)

lemma main_startup_unfold:
  "main_startup x s =
     uart_puts ''\<newline>Starting main loop...\<newline>''
       (main_gic x (main_irq x (main_gpio (main_report x s))))"
  by (simp add: main_startup_def)

lemma main_startup_regs_gpio:
  "\<not> gic_reg r \<Longrightarrow> regs (main_startup x s) r = regs (main_gpio s) r"
  by (simp add: main_startup_unfold uart_puts_def main_gic_frame main_irq_regs
        main_gpio_regs main_report_regs)

lemma main_startup_regs_gic:
  assumes "gic_reg r"
  shows "regs (main_startup x s) r = regs (main_gic x s) r"
proof -
  have "\<not> gpio_config_reg r" using assms by (cases r) simp_all
  then have "regs (main_irq x (main_gpio (main_report x s))) r = regs s r"
    by (simp add: main_irq_regs main_gpio_frame main_report_regs)
  then have "regs (main_gic x (main_irq x (main_gpio (main_report x s)))) r = regs (main_gic x s) r"
    by (rule main_gic_regs_cong)
  then show ?thesis by (simp add: main_startup_unfold uart_puts_def)
qed

lemma main_startup_globals:
  "sharedValue (main_startup x s) = 0"
  "redBool (main_startup x s) = 1"
  by (simp_all add: main_startup_unfold uart_puts_def main_gic_globals main_irq_globals
        main_gpio_globals main_report_globals)


lemma events_of_trace: "trace (f s) = trace s @ es \<Longrightarrow> events_of f s = es"
  by (simp add: events_of_def)

lemma main_gic_events:
  "events_of (main_gic x) s =
     map (\<lambda>i. Write (GIC_GICD_IPRIORITYR (i * 4)) 0x00000000) [0..<16] @
     map (\<lambda>i. Write (GIC_GICD_ITARGETSR (i * 4)) 0x01010101) [8..<16] @
     map (\<lambda>i. Write (GIC_GICD_ICFGR (i * 4)) 0xFFFFFFFF) [1..<4] @
     [Puts ''Enabling Bank 0 GPIO interrupts (pins 0 - 27) in GIC:\<newline>'',
      Write (GIC_GICD_ISENABLER 4) 0x00020000,
      Puts ''  GICD_ISENABLER0:    0x'', PutHex (regs s (GIC_GICD_ISENABLER 0)),
      Puts ''\<newline>'',
      Puts ''  GICD_ISENABLER1:    0x'', PutHex 0x00020000,
      Puts ''\<newline>\<newline>'',
      Write GIC_GICD_CTLR (if currentEL x = 0x3 then 0x3 else 0x1),
      Puts (if currentEL x = 0x3
            then ''Enabling GIC forwarding of Group 0 and 1 interrupts.\<newline>''
            else ''Enabling GIC forwarding of Group 1 interrupts.\<newline>''),
      Puts ''  GICD_CTLR:          0x'', PutHex (if currentEL x = 0x3 then 0x3 else 0x1),
      Puts ''\<newline>\<newline>'']"
  by (rule events_of_trace) (rule main_gic_trace)

lemmas part_events = events_of_def main_report_trace main_gpio_trace main_irq_trace

lemma main_startup_events:
  "events_of (main_startup x) s =
     events_of (main_report x) s @
     events_of main_gpio (main_report x s) @
     events_of (main_irq x) (main_gpio (main_report x s)) @
     events_of (main_gic x) (main_irq x (main_gpio (main_report x s))) @
     [Puts ''\<newline>Starting main loop...\<newline>'']"
  by (rule events_of_trace) (rule main_startup_trace)

lemma prio_writes_append [simp]: "prio_writes (a @ b) = prio_writes a @ prio_writes b"
  and prio_writes_Nil [simp]: "prio_writes [] = []"
  and prio_writes_Cons [simp]: "prio_writes (e # es) = prio_write e @ prio_writes es"
  by (simp_all add: prio_writes_def)

lemma target_writes_append [simp]: "target_writes (a @ b) = target_writes a @ target_writes b"
  and target_writes_Nil [simp]: "target_writes [] = []"
  and target_writes_Cons [simp]: "target_writes (e # es) = target_write e @ target_writes es"
  by (simp_all add: target_writes_def)

lemma prio_writes_map_prio:
  "prio_writes (map (\<lambda>i. Write (GIC_GICD_IPRIORITYR (f i)) v) xs) = map (\<lambda>i. (f i, v)) xs"
  by (induction xs) simp_all

lemma prio_writes_map_other:
  "prio_writes (map (\<lambda>i. Write (GIC_GICD_ITARGETSR (f i)) v) xs) = []"
  "prio_writes (map (\<lambda>i. Write (GIC_GICD_ICFGR (f i)) v) xs) = []"
  by (induction xs) simp_all

lemma target_writes_map_target:
  "target_writes (map (\<lambda>i. Write (GIC_GICD_ITARGETSR (f i)) v) xs) = map (\<lambda>i. (f i, v)) xs"
  by (induction xs) simp_all

lemma target_writes_map_other:
  "target_writes (map (\<lambda>i. Write (GIC_GICD_IPRIORITYR (f i)) v) xs) = []"
  "target_writes (map (\<lambda>i. Write (GIC_GICD_ICFGR (f i)) v) xs) = []"
  by (induction xs) simp_all

lemma prio_writes_parts:
  "prio_writes (events_of (main_report x) s) = []"
  "prio_writes (events_of main_gpio s) = []"
  "prio_writes (events_of (main_irq x) s) = []"
  by (simp_all add: part_events)

lemma target_writes_parts:
  "target_writes (events_of (main_report x) s) = []"
  "target_writes (events_of main_gpio s) = []"
  "target_writes (events_of (main_irq x) s) = []"
  by (simp_all add: part_events)

lemma prio_writes_gic:
  "prio_writes (events_of (main_gic x) s) = map (\<lambda>i. (i * 4, 0x00000000)) [0..<16]"
  unfolding main_gic_events prio_writes_append prio_writes_map_prio prio_writes_map_other
  by simp

lemma target_writes_gic:
  "target_writes (events_of (main_gic x) s) = map (\<lambda>i. (i * 4, 0x01010101)) [8..<16]"
  unfolding main_gic_events target_writes_append target_writes_map_target target_writes_map_other
  by simp

lemma prio_writes_startup:
  "prio_writes (events_of (main_startup x) s) = map (\<lambda>i. (i * 4, 0x00000000)) [0..<16]"
  by (simp add: main_startup_events prio_writes_parts prio_writes_gic)

lemma target_writes_startup:
  "target_writes (events_of (main_startup x) s) = map (\<lambda>i. (i * 4, 0x01010101)) [8..<16]"
  by (simp add: main_startup_events target_writes_parts target_writes_gic)

lemma distinct_times4: "distinct (map (\<lambda>i::nat. i * 4) xs) = distinct xs"
  by (simp add: distinct_map inj_on_def)


lemma affinity_bytes_01010101: "k < 4 \<Longrightarrow> affinity_byte k 0x01010101 = 0x01"
proof -
  assume "k < 4"
  then consider "k = 0" | "k = 1" | "k = 2" | "k = 3" by linarith
  then show ?thesis by cases (simp_all add: affinity_byte_def)
qed

lemma prio_regs_startup:
  "i < 16 \<Longrightarrow> regs (main_startup x s) (GIC_GICD_IPRIORITYR (i * 4)) = 0x00000000"
  by (auto simp: main_startup_regs_gic main_gic_regs image_iff)

lemma target_regs_startup:
  "8 \<le> i \<Longrightarrow> i < 16 \<Longrightarrow> regs (main_startup x s) (GIC_GICD_ITARGETSR (i * 4)) = 0x01010101"
  by (auto simp: main_startup_regs_gic main_gic_regs image_iff)

lemma loop_body_events_0:
  assumes "sharedValue s = 0"
  shows "events_of loop_body s =
     [Puts ''\<newline>State 1\<newline>'',
      Write GPSET0 0x10000, Write GPCLR0 0x1000, Write GPCLR0 0x10, Delay 500000,
      Write GPSET0 0x1000, Write GPCLR0 0x10000, Write GPCLR0 0x10, Delay 500000,
      Write GPREN0 (regs s GPREN0 AND NOT 0x1), Write GPSET0 0x10,
      Write GPREN0 ((regs s GPREN0 AND NOT 0x1) OR 0x1),
      Write GPCLR0 0x1000, Write GPCLR0 0x10000, Delay 500000,
      Nops 65535]"
  by (rule events_of_trace) (rule loop_body_trace_0 [OF assms])

lemma loop_body_events_1:
  assumes "sharedValue s = 1"
  shows "events_of loop_body s =
     [Puts ''\<newline>State 2\<newline>'',
      Write GPREN0 (regs s GPREN0 AND NOT 0x1), Write GPSET0 0x10,
      Write GPREN0 ((regs s GPREN0 AND NOT 0x1) OR 0x1),
      Write GPCLR0 0x1000, Write GPCLR0 0x10000, Delay 250000,
      Write GPSET0 0x1000, Write GPCLR0 0x10, Write GPCLR0 0x10000, Delay 250000,
      Write GPSET0 0x10000, Write GPCLR0 0x10, Write GPCLR0 0x1000, Delay 250000,
      Nops 65535]"
  by (rule events_of_trace) (rule loop_body_trace_1 [OF assms])

lemma asserted_iff:
  "asserted lv = (if bit lv 4 then [4] else []) @ (if bit lv 12 then [12] else [])
     @ (if bit lv 16 then [16] else [])"
  by (simp add: asserted_def)

lemma loop_body_trace: "trace (loop_body s) = trace s @ events_of loop_body s"
proof -
  consider "sharedValue s = 0" | "sharedValue s = 1" | "sharedValue s \<noteq> 0" "sharedValue s \<noteq> 1"
    by blast
  then show ?thesis
  proof cases
    case 1
    then show ?thesis by (simp add: events_of_def loop_body_trace_0)
  next
    case 2
    then show ?thesis by (simp add: events_of_def loop_body_trace_1)
  next
    case 3
    then show ?thesis by (simp add: events_of_def loop_body_other)
  qed
qed

lemma loop_body_no_irq: "count_list (events_of loop_body s) EnableIRQ = 0"
proof -
  consider "sharedValue s = 0" | "sharedValue s = 1" | "sharedValue s \<noteq> 0" "sharedValue s \<noteq> 1"
    by blast
  then show ?thesis
  proof cases
    case 1
    then show ?thesis by (simp add: loop_body_events_0)
  next
    case 2
    then show ?thesis by (simp add: loop_body_events_1)
  next
    case 3
    then show ?thesis by (simp add: events_of_def loop_body_other)
  qed
qed

lemma main_upto_Suc: "main_upto (Suc n) x s = loop_body (main_upto n x s)"
  by (simp add: main_upto_def)

lemma main_upto_trace: "trace (main_upto n x s) = trace s @ events_of (main_upto n x) s"
proof (induction n)
  case 0
  then show ?case by (simp add: main_upto_def events_of_def main_startup_trace)
next
  case (Suc n)
  have "trace (main_upto (Suc n) x s)
      = trace (main_upto n x s) @ events_of loop_body (main_upto n x s)"
    by (simp add: main_upto_Suc loop_body_trace [symmetric])
  also have "\<dots> = trace s @ events_of (main_upto n x) s @ events_of loop_body (main_upto n x s)"
    using Suc.IH by simp
  finally show ?case by (simp add: events_of_def)
qed

lemma main_upto_events_Suc:
  "events_of (main_upto (Suc n) x) s =
     events_of (main_upto n x) s @ events_of loop_body (main_upto n x s)"
proof -
  have "trace (main_upto (Suc n) x s)
      = trace (main_upto n x s) @ events_of loop_body (main_upto n x s)"
    by (simp add: main_upto_Suc loop_body_trace [symmetric])
  also have "\<dots> = trace s @ events_of (main_upto n x) s @ events_of loop_body (main_upto n x s)"
    using main_upto_trace [of n x s] by simp
  finally show ?thesis by (rule events_of_trace)
qed

lemma main_report_events:
  "events_of (main_report x) s =
     [UartInit,
      Puts ''Initial Values:\<newline>'',
      Puts ''  Exception level:    0x'', PutHex (currentEL x), Puts ''\<newline>'',
      Puts ''  SPSel:              0x'', PutHex (spsel x), Puts ''\<newline>'',
      Puts ''  DAIF flags:         0x'', PutHex (daif_before x), Puts ''\<newline>'',
      Puts ''  GPREN0:             0x'', PutHex (regs s GPREN0), Puts ''\<newline>'',
      Puts ''  GPFEN0:             0x'', PutHex (regs s GPFEN0), Puts ''\<newline>'',
      Puts ''\<newline>Resetting to new values:\<newline>'']"
  by (rule events_of_trace) (rule main_report_trace)

lemma main_irq_events:
  "events_of (main_irq x) s =
     [EnableIRQ,
      Puts ''  DAIF flags:         0x'', PutHex (daif_after x), Puts ''\<newline>'',
      Puts ''  GPREN0:             0x'', PutHex (regs s GPREN0), Puts ''\<newline>'',
      Puts ''  GPFEN0:             0x'', PutHex (regs s GPFEN0), Puts ''\<newline>\<newline>'']"
  by (rule events_of_trace) (rule main_irq_trace)

lemma main_gpio_events:
  "events_of main_gpio s =
     [Write GPFSEL0 (regs s GPFSEL0 AND NOT 0x7), Nops 150,
      Write GPPUPPDN0 ((regs s GPPUPPDN0 AND NOT 0x3) OR 0x2), Nops 150,
      Write GPREN0 0x1,
      Nops 150,
      Write GPFSEL0 ((regs s GPFSEL0 AND NOT 0x7) AND NOT 0x38), Nops 150,
      Write GPPUPPDN0 (((regs s GPPUPPDN0 AND NOT 0x3) OR 0x2) AND NOT 0xC), Nops 150,
      Write GPFEN0 0x2,
      Write GPFSEL0 ((((regs s GPFSEL0 AND NOT 0x7) AND NOT 0x38) AND NOT 0x7000) OR 0x1000),
      Write GPFSEL1 ((regs s GPFSEL1 AND NOT 0x1C0) OR 0x40),
      Write GPFSEL1 ((((regs s GPFSEL1 AND NOT 0x1C0) OR 0x40) AND NOT 0x1C0000) OR 0x40000)]"
  by (rule events_of_trace) (rule main_gpio_trace)

lemma count_irq_parts:
  "count_list (events_of (main_report x) s) EnableIRQ = 0"
  "count_list (events_of main_gpio s) EnableIRQ = 0"
  "count_list (events_of (main_irq x) s) EnableIRQ = 1"
  "count_list (events_of (main_gic x) s) EnableIRQ = 0"
  by (simp_all add: main_report_events main_gpio_events main_irq_events main_gic_events
        count_list_0_iff image_iff)

lemma count_irq_startup: "count_list (events_of (main_startup x) s) EnableIRQ = 1"
  by (simp add: main_startup_events count_irq_parts)

lemma count_irq_main: "count_list (events_of (main_upto n x) s) EnableIRQ = 1"
proof (induction n)
  case 0
  have "main_upto 0 x = main_startup x" by (rule ext) (simp add: main_upto_def)
  then show ?case by (simp add: count_irq_startup)
next
  case (Suc n)
  then show ?case by (simp add: main_upto_events_Suc loop_body_no_irq)
qed

lemma no_irq_parts:
  "EnableIRQ \<notin> set (events_of (main_report x) s)"
  "EnableIRQ \<notin> set (events_of main_gpio s)"
  using count_irq_parts(1,2) by (simp_all add: count_list_0_iff)

lemma split_at_irq:
  assumes "EnableIRQ \<notin> set pre"
  shows "before_irq (pre @ EnableIRQ # post) = pre"
    and "after_irq (pre @ EnableIRQ # post) = post"
proof -
  have "takeWhile (\<lambda>e. e \<noteq> EnableIRQ) (pre @ EnableIRQ # post) = pre"
    using assms by (subst takeWhile_append2) auto
  then show "before_irq (pre @ EnableIRQ # post) = pre" by (simp add: before_irq_def)
  have "dropWhile (\<lambda>e. e \<noteq> EnableIRQ) (pre @ EnableIRQ # post) = EnableIRQ # post"
    using assms by (subst dropWhile_append2) auto
  then show "after_irq (pre @ EnableIRQ # post) = post" by (simp add: after_irq_def)
qed

lemma main_startup_events_split:
  "events_of (main_startup x) s =
     (events_of (main_report x) s @ events_of main_gpio (main_report x s)) @
     EnableIRQ #
     ([Puts ''  DAIF flags:         0x'', PutHex (daif_after x), Puts ''\<newline>'',
       Puts ''  GPREN0:             0x'', PutHex (regs (main_gpio (main_report x s)) GPREN0),
       Puts ''\<newline>'',
       Puts ''  GPFEN0:             0x'', PutHex (regs (main_gpio (main_report x s)) GPFEN0),
       Puts ''\<newline>\<newline>''] @
      events_of (main_gic x) (main_irq x (main_gpio (main_report x s))) @
      [Puts ''\<newline>Starting main loop...\<newline>''])"
  by (simp add: main_startup_events main_irq_events)

lemma no_irq_before: 
  "EnableIRQ \<notin> set (events_of (main_report x) s @ events_of main_gpio (main_report x s))"
  using no_irq_parts by simp

lemma before_irq_startup:
  "before_irq (events_of (main_startup x) s) =
     events_of (main_report x) s @ events_of main_gpio (main_report x s)"
  unfolding main_startup_events_split by (rule split_at_irq(1) [OF no_irq_before])

lemma after_irq_startup:
  "after_irq (events_of (main_startup x) s) =
     [Puts ''  DAIF flags:         0x'', PutHex (daif_after x), Puts ''\<newline>'',
      Puts ''  GPREN0:             0x'', PutHex (regs (main_gpio (main_report x s)) GPREN0),
      Puts ''\<newline>'',
      Puts ''  GPFEN0:             0x'', PutHex (regs (main_gpio (main_report x s)) GPFEN0),
      Puts ''\<newline>\<newline>''] @
     events_of (main_gic x) (main_irq x (main_gpio (main_report x s))) @
     [Puts ''\<newline>Starting main loop...\<newline>'']"
  unfolding main_startup_events_split by (rule split_at_irq(2) [OF no_irq_before])

lemma gic_config_gic_events:
  "filter is_gic_config (events_of (main_gic x) s) =
     map (\<lambda>i. Write (GIC_GICD_IPRIORITYR (i * 4)) 0x00000000) [0..<16] @
     map (\<lambda>i. Write (GIC_GICD_ITARGETSR (i * 4)) 0x01010101) [8..<16] @
     map (\<lambda>i. Write (GIC_GICD_ICFGR (i * 4)) 0xFFFFFFFF) [1..<4] @
     [Write (GIC_GICD_ISENABLER 4) 0x00020000,
      Write GIC_GICD_CTLR (if currentEL x = 0x3 then 0x3 else 0x1)]"
  unfolding main_gic_events by (simp add: filter_map comp_def)

lemma gpio_config_gic_events: "filter is_gpio_config (events_of (main_gic x) s) = []"
  unfolding main_gic_events by (simp add: filter_map comp_def)

lemma init_GPIO0_pull:
  "regs (init_GPIO0_to_risingEdgeInterrupt s) GPPUPPDN0 = (regs s GPPUPPDN0 AND NOT 0x3) OR 0x2"
  by (simp add: init_GPIO0_regs)

lemma init_GPIO1_pull:
  "regs (init_GPIO1_to_fallingEdgeInterrupt s) GPPUPPDN0 = regs s GPPUPPDN0 AND NOT 0xC"
  by (simp add: init_GPIO1_regs)

lemma pull_field_0: "pull_field 0 ((w AND NOT 0x3) OR 0x2) = 0x2"
  unfolding pull_field_def by (rule bit_eqI) (auto simp: bit_simps)

lemma pull_field_1: "pull_field 1 (w AND NOT 0xC) = 0x0"
  unfolding pull_field_def by (rule bit_eqI) (auto simp: bit_simps)

lemma others_0: "((w AND NOT 0x3) OR 0x2) AND NOT 0x3 = w AND NOT (0x3::u32)"
  by (rule bit_eqI) (auto simp: bit_simps)

lemma others_1: "(w AND NOT 0xC) AND NOT 0xC = w AND NOT (0xC::u32)"
  by (rule bit_eqI) (auto simp: bit_simps)

lemma prio_untouched:
  "regs (main_startup x s) (GIC_GICD_IPRIORITYR (4 * i + 1)) = regs s (GIC_GICD_IPRIORITYR (4 * i + 1))"
  "regs (main_startup x s) (GIC_GICD_IPRIORITYR (4 * i + 2)) = regs s (GIC_GICD_IPRIORITYR (4 * i + 2))"
  "regs (main_startup x s) (GIC_GICD_IPRIORITYR (4 * i + 3)) = regs s (GIC_GICD_IPRIORITYR (4 * i + 3))"
  by (auto simp: main_startup_regs_gic main_gic_regs image_iff) presburger+

lemma prio_writes_explicit:
  "prio_writes (events_of (main_startup x) s) =
     [(0, 0), (4, 0), (8, 0), (12, 0), (16, 0), (20, 0), (24, 0), (28, 0),
      (32, 0), (36, 0), (40, 0), (44, 0), (48, 0), (52, 0), (56, 0), (60, 0)]"
  by (simp add: prio_writes_startup upt_conv_Cons)

lemma writes_to_prio:
  "writes_to (GIC_GICD_IPRIORITYR k) es = map snd (filter (\<lambda>p. fst p = k) (prio_writes es))"
proof (induction es)
  case Nil
  then show ?case by (simp add: writes_to_def)
next
  case (Cons e es)
  show ?case
  proof (cases e)
    case (Write r v)
    then show ?thesis using Cons by (cases r) (simp_all add: writes_to_def)
  qed (use Cons in \<open>simp_all add: writes_to_def\<close>)
qed

lemma prio_ids_per4:
  "filter (prio_zeroed 4 (events_of (main_startup x) s)) [0..<20] = [0, 1, 2, 3, 16, 17, 18, 19]"
  by (simp add: prio_zeroed_def prio_element_def prio_writes_explicit upt_conv_Cons)

lemma prio_ids_per1:
  "filter (prio_zeroed 1 (events_of (main_startup x) s)) [0..<10] = [0, 4, 8]"
  by (simp add: prio_zeroed_def prio_element_def prio_writes_explicit upt_conv_Cons)

lemma core_targeted_01: "core_targeted 0x01 c \<longleftrightarrow> c = 0"
  by (simp add: core_targeted_def bit_1_iff)

lemma prio_not_written:
  "k mod 4 \<noteq> 0 \<Longrightarrow> writes_to (GIC_GICD_IPRIORITYR k) (events_of (main_startup x) s) = []"
  by (auto simp: writes_to_prio prio_writes_startup filter_empty_conv)

lemma prio_not_written_123:
  "writes_to (GIC_GICD_IPRIORITYR (4 * j + 1)) (events_of (main_startup x) s) = []"
  "writes_to (GIC_GICD_IPRIORITYR (4 * j + 2)) (events_of (main_startup x) s) = []"
  "writes_to (GIC_GICD_IPRIORITYR (4 * j + 3)) (events_of (main_startup x) s) = []"
  by (rule prio_not_written, presburger)+

lemma target_writes_explicit:
  "target_writes (events_of (main_startup x) s) =
     [(32, 0x01010101), (36, 0x01010101), (40, 0x01010101), (44, 0x01010101),
      (48, 0x01010101), (52, 0x01010101), (56, 0x01010101), (60, 0x01010101)]"
  by (simp add: target_writes_startup upt_conv_Cons)

section \<open>The self-trigger guard of GPIO 4\<close>

text \<open>
  C9. For every register state, \<^verbatim>\<open>set_GPIO4\<close> makes three writes, in this order:
  it clears bit 0 of the rising-edge detect-enable register \<^verbatim>\<open>GPREN0\<close>, sets
  GPIO 4 through \<^verbatim>\<open>GPSET0\<close>, and sets bit 0 of \<^verbatim>\<open>GPREN0\<close> again. When it
  returns, bit 0 of \<^verbatim>\<open>GPREN0\<close> is set, whatever it was before.
\<close>

theorem set_GPIO4_rearms_rising_edge:
  "events_of set_GPIO4 s =
     [Write GPREN0 (regs s GPREN0 AND NOT 0x1),
      Write GPSET0 0x10,
      Write GPREN0 ((regs s GPREN0 AND NOT 0x1) OR 0x1)]
   \<and> \<not> bit (regs s GPREN0 AND NOT 0x1) 0
   \<and> bit ((regs s GPREN0 AND NOT 0x1) OR 0x1) 0
   \<and> bit (regs (set_GPIO4 s) GPREN0) 0"
  by (simp add: events_of_def set_GPIO4_trace set_GPIO4_regs bit_simps)

theorem set_GPIO4_rearms_rising_edge_witness:
  "events_of set_GPIO4 power_on = [Write GPREN0 0, Write GPSET0 0x10, Write GPREN0 1]
   \<and> bit (regs (set_GPIO4 power_on) GPREN0) 0"
  using set_GPIO4_rearms_rising_edge [of power_on]
  by (simp add: power_on_def)

section \<open>The edge-detect enables after the GPIO set-up\<close>

text \<open>
  C10. The two edge-detect enable registers are assigned, not modified: after
  \<^verbatim>\<open>init_GPIO0_to_risingEdgeInterrupt\<close> followed by
  \<^verbatim>\<open>init_GPIO1_to_fallingEdgeInterrupt\<close>, \<^verbatim>\<open>GPREN0\<close> is exactly 0x00000001 and
  \<^verbatim>\<open>GPFEN0\<close> is exactly 0x00000002, whatever the registers held before. The same
  holds after the whole GPIO set-up of \<^verbatim>\<open>main\<close> and when the main loop is
  entered.
\<close>

theorem edge_enables_absolute:
  "regs (init_GPIO1_to_fallingEdgeInterrupt (init_GPIO0_to_risingEdgeInterrupt s)) GPREN0
     = 0x00000001
   \<and> regs (init_GPIO1_to_fallingEdgeInterrupt (init_GPIO0_to_risingEdgeInterrupt s)) GPFEN0
     = 0x00000002
   \<and> regs (main_gpio s) GPREN0 = 0x00000001
   \<and> regs (main_gpio s) GPFEN0 = 0x00000002
   \<and> regs (main_startup x s) GPREN0 = 0x00000001
   \<and> regs (main_startup x s) GPFEN0 = 0x00000002"
  by (simp add: init_GPIO0_regs init_GPIO1_regs main_gpio_regs main_startup_regs_gpio)

theorem edge_enables_absolute_witness:
  "regs all_set GPREN0 = 0xFFFFFFFF \<and> regs all_set GPFEN0 = 0xFFFFFFFF
   \<and> regs (init_GPIO1_to_fallingEdgeInterrupt (init_GPIO0_to_risingEdgeInterrupt all_set)) GPREN0
     = 0x00000001
   \<and> regs (init_GPIO1_to_fallingEdgeInterrupt (init_GPIO0_to_risingEdgeInterrupt all_set)) GPFEN0
     = 0x00000002
   \<and> regs (main_startup at_EL1 all_set) GPREN0 = 0x00000001
   \<and> regs (main_startup at_EL1 all_set) GPFEN0 = 0x00000002"
  using edge_enables_absolute [of all_set at_EL1]
  by (simp add: all_set_def)

section \<open>Forwarding at the distributor\<close>

text \<open>
  C4. \<^verbatim>\<open>main\<close> writes the distributor control register \<^verbatim>\<open>GIC_GICD_CTLR\<close> exactly
  once. If the exception level returned by \<^verbatim>\<open>getCurrentEL\<close> is 3, the value
  written is 0x3 (both groups); for every other level it is 0x1 (one group). The
  register holds that value when the main loop is entered.
\<close>

theorem forwarding_by_exception_level:
  "writes_to GIC_GICD_CTLR (events_of (main_startup x) s)
     = [if currentEL x = 0x3 then 0x3 else 0x1]
   \<and> regs (main_startup x s) GIC_GICD_CTLR = (if currentEL x = 0x3 then 0x3 else 0x1)"
  by (simp add: main_startup_events main_report_events main_gpio_events main_irq_events
        main_gic_events writes_to_def main_startup_regs_gic main_gic_regs)

theorem forwarding_by_exception_level_witness:
  "writes_to GIC_GICD_CTLR (events_of (main_startup at_EL3) power_on) = [0x3]
   \<and> writes_to GIC_GICD_CTLR (events_of (main_startup at_EL1) power_on) = [0x1]
   \<and> regs (main_startup at_EL3 power_on) GIC_GICD_CTLR = 0x3
   \<and> regs (main_startup at_EL1 power_on) GIC_GICD_CTLR = 0x1"
  using forwarding_by_exception_level [of at_EL3 power_on]
    forwarding_by_exception_level [of at_EL1 power_on]
  by (simp add: at_EL3_def at_EL1_def)

section \<open>The set-up of the interrupt controller\<close>

text \<open>
  C5. What the priority loop of \<^verbatim>\<open>main\<close> does, for every prior state. It writes the
  value 0 to the sixteen elements \<^verbatim>\<open>GIC_GICD_IPRIORITYR + (i * 4)\<close> of the priority
  array, for \<open>i\<close> from 0 to 15 in this order, each exactly once, and they hold 0
  when the main loop is entered. The three elements that follow each of them
  (operands \<open>4 * j + 1\<close>, \<open>4 * j + 2\<close> and \<open>4 * j + 3\<close>) are never written and keep
  what they held: the loop steps over them. With four interrupt IDs to an
  element, the IDs below 20 whose priority field is zeroed are 0 to 3 and 16 to
  19 only; with one ID to an element, the IDs below 10 are 0, 4 and 8 only.
\<close>

theorem priority_zeroing_every_fourth_element:
  "prio_writes (events_of (main_startup x) s) = map (\<lambda>i. (i * 4, 0x00000000)) [0..<16]
   \<and> distinct (map fst (prio_writes (events_of (main_startup x) s)))
   \<and> (\<forall>i<16. regs (main_startup x s) (GIC_GICD_IPRIORITYR (i * 4)) = 0x00000000)
   \<and> writes_to (GIC_GICD_IPRIORITYR (4 * j + 1)) (events_of (main_startup x) s) = []
   \<and> writes_to (GIC_GICD_IPRIORITYR (4 * j + 2)) (events_of (main_startup x) s) = []
   \<and> writes_to (GIC_GICD_IPRIORITYR (4 * j + 3)) (events_of (main_startup x) s) = []
   \<and> regs (main_startup x s) (GIC_GICD_IPRIORITYR (4 * j + 1))
       = regs s (GIC_GICD_IPRIORITYR (4 * j + 1))
   \<and> regs (main_startup x s) (GIC_GICD_IPRIORITYR (4 * j + 2))
       = regs s (GIC_GICD_IPRIORITYR (4 * j + 2))
   \<and> regs (main_startup x s) (GIC_GICD_IPRIORITYR (4 * j + 3))
       = regs s (GIC_GICD_IPRIORITYR (4 * j + 3))
   \<and> filter (prio_zeroed 4 (events_of (main_startup x) s)) [0..<20]
       = [0, 1, 2, 3, 16, 17, 18, 19]
   \<and> filter (prio_zeroed 1 (events_of (main_startup x) s)) [0..<10] = [0, 4, 8]"
proof -
  have "distinct (map fst (prio_writes (events_of (main_startup x) s)))"
    by (simp add: prio_writes_startup comp_def distinct_times4)
  moreover have "\<forall>i<16. regs (main_startup x s) (GIC_GICD_IPRIORITYR (i * 4)) = 0x00000000"
    by (simp add: prio_regs_startup)
  ultimately show ?thesis
    using prio_writes_startup [of x s] prio_not_written_123 [of j x s] prio_untouched [of x s j]
      prio_ids_per4 [of x s] prio_ids_per1 [of x s]
    by blast
qed

theorem priority_zeroing_every_fourth_element_witness:
  "regs all_set (GIC_GICD_IPRIORITYR 0) = 0xFFFFFFFF
   \<and> regs all_set (GIC_GICD_IPRIORITYR 1) = 0xFFFFFFFF
   \<and> regs (main_startup at_EL1 all_set) (GIC_GICD_IPRIORITYR 0) = 0x00000000
   \<and> regs (main_startup at_EL1 all_set) (GIC_GICD_IPRIORITYR 1) = 0xFFFFFFFF
   \<and> regs (main_startup at_EL1 all_set) (GIC_GICD_IPRIORITYR 4) = 0x00000000
   \<and> writes_to (GIC_GICD_IPRIORITYR 1) (events_of (main_startup at_EL1) all_set) = []"
proof -
  note t = priority_zeroing_every_fourth_element [of at_EL1 all_set 0]
  have "(0::nat) < 16" and "(1::nat) < 16" by simp_all
  with t have "regs (main_startup at_EL1 all_set) (GIC_GICD_IPRIORITYR (0 * 4)) = 0"
    and "regs (main_startup at_EL1 all_set) (GIC_GICD_IPRIORITYR (1 * 4)) = 0" by blast+
  then show ?thesis using t by (simp add: all_set_def)
qed

text \<open>
  C6, as the code has it. The target loop of \<^verbatim>\<open>main\<close> writes the value 0x01010101
  once to each of the target registers it addresses,
  \<^verbatim>\<open>GIC_GICD_ITARGETSR + (i * 4)\<close> for \<open>i\<close> from 8 to 15, and they hold it when the
  main loop is entered. In every value written, the four core-affinity bytes are
  identical: each is 0x01, a mask in which only bit 0 is set, so that only the
  first core may take the interrupt.
\<close>

theorem target_mask_first_core_only:
  "target_writes (events_of (main_startup x) s) = map (\<lambda>i. (i * 4, 0x01010101)) [8..<16]
   \<and> (\<forall>i. 8 \<le> i \<and> i < 16 \<longrightarrow>
         regs (main_startup x s) (GIC_GICD_ITARGETSR (i * 4)) = 0x01010101)
   \<and> (\<forall>p \<in> set (target_writes (events_of (main_startup x) s)). \<forall>k<4.
         affinity_byte k (snd p) = 0x01
         \<and> (\<forall>c. core_targeted (affinity_byte k (snd p)) c \<longleftrightarrow> c = 0))"
  by (auto simp: target_writes_startup target_regs_startup affinity_bytes_01010101
        core_targeted_01)

theorem target_mask_first_core_only_witness:
  "(32, 0x01010101) \<in> set (target_writes (events_of (main_startup at_EL1) power_on))
   \<and> regs (main_startup at_EL1 power_on) (GIC_GICD_ITARGETSR 32) = 0x01010101
   \<and> affinity_byte 3 0x01010101 = 0x01
   \<and> core_targeted (affinity_byte 3 0x01010101) 0
   \<and> \<not> core_targeted (affinity_byte 3 0x01010101) 3"
proof -
  note t = target_mask_first_core_only [of at_EL1 power_on]
  have m: "(32, 0x01010101) \<in> set (target_writes (events_of (main_startup at_EL1) power_on))"
    by (simp add: target_writes_explicit)
  have "(8::nat) \<le> 8 \<and> (8::nat) < 16" by simp
  with t have r: "regs (main_startup at_EL1 power_on) (GIC_GICD_ITARGETSR (8 * 4)) = 0x01010101"
    by blast
  have "(3::nat) < 4" by simp
  with t m have "affinity_byte 3 (snd (32::nat, 0x01010101::u32)) = 0x01
     \<and> (\<forall>c. core_targeted (affinity_byte 3 (snd (32::nat, 0x01010101::u32))) c \<longleftrightarrow> c = 0)"
    by blast
  then show ?thesis using m r by (simp add: core_targeted_01)
qed

text \<open>
  C6, counterexample. Under the mask the code writes, the interrupt may not be
  taken by any of the first four cores: at exception level 1, from a state where
  every register reads 0, byte 0 of the first value written to the target array
  is 0x01, and the bit of the second core is not set in it.
\<close>

theorem target_mask_excludes_second_core:
  "snd (hd (target_writes (events_of (main_startup at_EL1) power_on))) = 0x01010101
   \<and> affinity_byte 0 (snd (hd (target_writes (events_of (main_startup at_EL1) power_on)))) = 0x01
   \<and> \<not> core_targeted
         (affinity_byte 0 (snd (hd (target_writes (events_of (main_startup at_EL1) power_on))))) 1"
  by (simp add: target_writes_explicit affinity_bytes_01010101 core_targeted_01)

section \<open>The place of the interrupt enable in the start-up\<close>

text \<open>
  C1, as the code has it. \<^verbatim>\<open>enableIRQ\<close> is called exactly once, however many
  passes of the main loop are run. In the start-up, every write that configures a
  GPIO line (function select, pull, edge-detect enable, for GPIO 0, 1, 4, 12 and
  16) comes before that call and none after it; every write to the distributor
  of the interrupt controller (priorities, targets, trigger configuration,
  interrupt-line enable, forwarding enable) comes after that call and none before
  it.
\<close>

theorem enableIRQ_after_gpio_before_gic:
  "count_list (events_of (main_upto n x) s) EnableIRQ = 1
   \<and> concat (map written_reg
         (filter is_gpio_config (before_irq (events_of (main_startup x) s)))) =
       [GPFSEL0, GPPUPPDN0, GPREN0, GPFSEL0, GPPUPPDN0, GPFEN0, GPFSEL0, GPFSEL1, GPFSEL1]
   \<and> filter is_gpio_config (after_irq (events_of (main_startup x) s)) = []
   \<and> filter is_gic_config (before_irq (events_of (main_startup x) s)) = []
   \<and> filter is_gic_config (after_irq (events_of (main_startup x) s)) =
       map (\<lambda>i. Write (GIC_GICD_IPRIORITYR (i * 4)) 0x00000000) [0..<16] @
       map (\<lambda>i. Write (GIC_GICD_ITARGETSR (i * 4)) 0x01010101) [8..<16] @
       map (\<lambda>i. Write (GIC_GICD_ICFGR (i * 4)) 0xFFFFFFFF) [1..<4] @
       [Write (GIC_GICD_ISENABLER 4) 0x00020000,
        Write GIC_GICD_CTLR (if currentEL x = 0x3 then 0x3 else 0x1)]"
proof -
  have "filter is_gpio_config (after_irq (events_of (main_startup x) s)) = []"
    by (simp add: after_irq_startup gpio_config_gic_events)
  moreover have "filter is_gic_config (before_irq (events_of (main_startup x) s)) = []"
    by (simp add: before_irq_startup main_report_events main_gpio_events)
  moreover have "concat (map written_reg
         (filter is_gpio_config (before_irq (events_of (main_startup x) s)))) =
       [GPFSEL0, GPPUPPDN0, GPREN0, GPFSEL0, GPPUPPDN0, GPFEN0, GPFSEL0, GPFSEL1, GPFSEL1]"
    by (simp add: before_irq_startup main_report_events main_gpio_events)
  moreover have "filter is_gic_config (after_irq (events_of (main_startup x) s)) =
       map (\<lambda>i. Write (GIC_GICD_IPRIORITYR (i * 4)) 0x00000000) [0..<16] @
       map (\<lambda>i. Write (GIC_GICD_ITARGETSR (i * 4)) 0x01010101) [8..<16] @
       map (\<lambda>i. Write (GIC_GICD_ICFGR (i * 4)) 0xFFFFFFFF) [1..<4] @
       [Write (GIC_GICD_ISENABLER 4) 0x00020000,
        Write GIC_GICD_CTLR (if currentEL x = 0x3 then 0x3 else 0x1)]"
    by (simp add: after_irq_startup gic_config_gic_events)
  ultimately show ?thesis using count_irq_main [of n x s] by blast
qed

theorem enableIRQ_after_gpio_before_gic_witness:
  "count_list (events_of (main_upto 2 at_EL1) power_on) EnableIRQ = 1
   \<and> filter is_gpio_config (after_irq (events_of (main_startup at_EL1) power_on)) = []
   \<and> filter is_gic_config (before_irq (events_of (main_startup at_EL1) power_on)) = []"
  using enableIRQ_after_gpio_before_gic [of 2 at_EL1 power_on] by blast

text \<open>
  C1, counterexample. The call of \<^verbatim>\<open>enableIRQ\<close> does not come after the
  configuration of the interrupt controller: at exception level 1, from a state
  where every register reads 0, the write that enables forwarding at the
  distributor is among the events after the call.
\<close>

theorem enableIRQ_precedes_gic_setup:
  "is_gic_config (Write GIC_GICD_CTLR 0x1)
   \<and> Write GIC_GICD_CTLR 0x1 \<in> set (after_irq (events_of (main_startup at_EL1) power_on))
   \<and> filter is_gic_config (after_irq (events_of (main_startup at_EL1) power_on)) \<noteq> []"
  by (simp add: after_irq_startup main_gic_events at_EL1_def)

section \<open>The dispatcher\<close>

text \<open>
  C2. A pass of the main loop that finds \<^verbatim>\<open>sharedValue\<close> equal to 0 runs three
  phases. Each phase sets one line through \<^verbatim>\<open>GPSET0\<close> and clears the two others
  through \<^verbatim>\<open>GPCLR0\<close>, then waits 500000 microseconds: GPIO 16 first, GPIO 12
  second, GPIO 4 third (whose set routine also guards bit 0 of \<^verbatim>\<open>GPREN0\<close>).
  Whatever the levels of the lines were before the pass, exactly the line of the
  phase is high, and the two others are low, when each wait starts.
\<close>

theorem dispatcher_state_0:
  assumes "sharedValue s = 0"
  shows "events_of loop_body s =
     [Puts ''\<newline>State 1\<newline>'',
      Write GPSET0 (push_bit 16 1), Write GPCLR0 (push_bit 12 1), Write GPCLR0 (push_bit 4 1),
      Delay 500000,
      Write GPSET0 (push_bit 12 1), Write GPCLR0 (push_bit 16 1), Write GPCLR0 (push_bit 4 1),
      Delay 500000,
      Write GPREN0 (regs s GPREN0 AND NOT 0x1), Write GPSET0 (push_bit 4 1),
      Write GPREN0 ((regs s GPREN0 AND NOT 0x1) OR 0x1),
      Write GPCLR0 (push_bit 12 1), Write GPCLR0 (push_bit 16 1),
      Delay 500000,
      Nops 65535]
   \<and> map (\<lambda>(lv, n). (asserted lv, n)) (dwells (events_of loop_body s) lv0) =
       [([16], 500000), ([12], 500000), ([4], 500000)]"
  by (simp add: loop_body_events_0 [OF assms] asserted_iff bit_simps)

theorem dispatcher_state_0_witness:
  "sharedValue power_on = 0
   \<and> map (\<lambda>(lv, n). (asserted lv, n)) (dwells (events_of loop_body power_on) 0xFFFFFFFF) =
       [([16], 500000), ([12], 500000), ([4], 500000)]"
proof -
  have h: "sharedValue power_on = 0" by (simp add: power_on_def)
  show ?thesis using h dispatcher_state_0 [OF h, of "0xFFFFFFFF"] by blast
qed

text \<open>
  C3. A pass of the main loop that finds \<^verbatim>\<open>sharedValue\<close> equal to 1 runs three
  phases of the same shape, each followed by a wait of 250000 microseconds:
  GPIO 4 first, GPIO 12 second, GPIO 16 third. Exactly the line of the phase is
  high, and the two others are low, when each wait starts.
\<close>

theorem dispatcher_state_1:
  assumes "sharedValue s = 1"
  shows "events_of loop_body s =
     [Puts ''\<newline>State 2\<newline>'',
      Write GPREN0 (regs s GPREN0 AND NOT 0x1), Write GPSET0 (push_bit 4 1),
      Write GPREN0 ((regs s GPREN0 AND NOT 0x1) OR 0x1),
      Write GPCLR0 (push_bit 12 1), Write GPCLR0 (push_bit 16 1),
      Delay 250000,
      Write GPSET0 (push_bit 12 1), Write GPCLR0 (push_bit 4 1), Write GPCLR0 (push_bit 16 1),
      Delay 250000,
      Write GPSET0 (push_bit 16 1), Write GPCLR0 (push_bit 4 1), Write GPCLR0 (push_bit 12 1),
      Delay 250000,
      Nops 65535]
   \<and> map (\<lambda>(lv, n). (asserted lv, n)) (dwells (events_of loop_body s) lv0) =
       [([4], 250000), ([12], 250000), ([16], 250000)]"
  by (simp add: loop_body_events_1 [OF assms] asserted_iff bit_simps)

theorem dispatcher_state_1_witness:
  "sharedValue (power_on\<lparr>sharedValue := 1\<rparr>) = 1
   \<and> map (\<lambda>(lv, n). (asserted lv, n))
         (dwells (events_of loop_body (power_on\<lparr>sharedValue := 1\<rparr>)) 0xFFFFFFFF) =
       [([4], 250000), ([12], 250000), ([16], 250000)]"
proof -
  have h: "sharedValue (power_on\<lparr>sharedValue := 1\<rparr>) = 1" by simp
  show ?thesis using h dispatcher_state_1 [OF h, of "0xFFFFFFFF"] by blast
qed

text \<open>
  C8. A pass of the main loop that finds \<^verbatim>\<open>sharedValue\<close> different from 0 and from
  1 only runs the closing busy-wait: it writes neither \<^verbatim>\<open>GPSET0\<close> nor \<^verbatim>\<open>GPCLR0\<close>,
  no register changes, and the lines keep their levels.
\<close>

theorem dispatcher_other_state:
  assumes "sharedValue s \<noteq> 0" and "sharedValue s \<noteq> 1"
  shows "events_of loop_body s = [Nops 65535]
   \<and> writes_to GPSET0 (events_of loop_body s) = []
   \<and> writes_to GPCLR0 (events_of loop_body s) = []
   \<and> fold drive (events_of loop_body s) lv0 = lv0
   \<and> regs (loop_body s) = regs s"
  by (simp add: loop_body_other [OF assms] events_of_def writes_to_def)

theorem dispatcher_other_state_witness:
  "sharedValue (power_on\<lparr>sharedValue := 2\<rparr>) \<noteq> 0
   \<and> sharedValue (power_on\<lparr>sharedValue := 2\<rparr>) \<noteq> 1
   \<and> events_of loop_body (power_on\<lparr>sharedValue := 2\<rparr>) = [Nops 65535]
   \<and> fold drive (events_of loop_body (power_on\<lparr>sharedValue := 2\<rparr>)) 0x11010 = 0x11010"
proof -
  have h0: "sharedValue (power_on\<lparr>sharedValue := 2\<rparr>) \<noteq> 0"
    and h1: "sharedValue (power_on\<lparr>sharedValue := 2\<rparr>) \<noteq> 1" by simp_all
  show ?thesis using h0 h1 dispatcher_other_state [OF h0 h1, of "0x11010"] by simp
qed

section \<open>The pull configuration of the edge inputs\<close>

text \<open>
  C7. What the two edge-input routines leave in \<^verbatim>\<open>GPPUPPDN0\<close>, for every prior
  content. \<^verbatim>\<open>init_GPIO0_to_risingEdgeInterrupt\<close> clears the 2-bit field of GPIO 0
  and then sets bit 1 of the register: the field ends as 2, not as 0.
  \<^verbatim>\<open>init_GPIO1_to_fallingEdgeInterrupt\<close> clears the field of GPIO 1: it ends as 0.
  Both leave every other field of the register as it was.
\<close>

theorem init_GPIO0_selects_pull_code_2:
  "pull_field 0 (regs (init_GPIO0_to_risingEdgeInterrupt s) GPPUPPDN0) = 0x2
   \<and> regs (init_GPIO0_to_risingEdgeInterrupt s) GPPUPPDN0 AND NOT 0x3
       = regs s GPPUPPDN0 AND NOT 0x3
   \<and> pull_field 1 (regs (init_GPIO1_to_fallingEdgeInterrupt s) GPPUPPDN0) = 0x0
   \<and> regs (init_GPIO1_to_fallingEdgeInterrupt s) GPPUPPDN0 AND NOT 0xC
       = regs s GPPUPPDN0 AND NOT 0xC
   \<and> regs (init_GPIO0_to_risingEdgeInterrupt power_on) GPPUPPDN0 = 0x00000002"
proof -
  have "regs (init_GPIO0_to_risingEdgeInterrupt power_on) GPPUPPDN0 = 0x00000002"
    by (simp add: init_GPIO0_pull power_on_def)
  moreover have "pull_field 0 (regs (init_GPIO0_to_risingEdgeInterrupt s) GPPUPPDN0) = 0x2"
    unfolding init_GPIO0_pull by (rule pull_field_0)
  moreover have "regs (init_GPIO0_to_risingEdgeInterrupt s) GPPUPPDN0 AND NOT 0x3
       = regs s GPPUPPDN0 AND NOT 0x3"
    unfolding init_GPIO0_pull by (rule others_0)
  moreover have "pull_field 1 (regs (init_GPIO1_to_fallingEdgeInterrupt s) GPPUPPDN0) = 0x0"
    unfolding init_GPIO1_pull by (rule pull_field_1)
  moreover have "regs (init_GPIO1_to_fallingEdgeInterrupt s) GPPUPPDN0 AND NOT 0xC
       = regs s GPPUPPDN0 AND NOT 0xC"
    unfolding init_GPIO1_pull by (rule others_1)
  ultimately show ?thesis by blast
qed

end
